theory Spec2Isabelle
  imports Complex_Main
begin

section \<open>The transaction service of \<open>app.js\<close>\<close>

text \<open>
  \<open>app.js\<close> is an Express application with six GET handlers over one Mongoose model,
  \<open>Transaction\<close>. Each handler is embedded as a function from the request's query
  parameters and the database to the outcome of the request and the database afterwards.

  What the handlers call but do not define is kept apart from them:
  \<^item> the JavaScript built-ins (\<open>new Date(string)\<close>, the string-to-number coercion of
    \<open>-\<close> and \<open>*\<close>, \<open>parseInt\<close>) and the regular-expression engine behind \<open>$regex\<close> are
    fields of a record \<open>platform\<close>, a parameter of every handler;
  \<^item> \<open>axios.get\<close> is the value it resolves or rejects with, a parameter of the seed
    handler;
  \<^item> the model \<open>Transaction\<close> (\<open>models/Transaction.js\<close>) and the database are
    modelled in the section on the collection.
\<close>

subsection \<open>JavaScript values\<close>

text \<open>
  A JavaScript number. The finite doubles are rationals; arithmetic on them is exact here
  (rounding and overflow of doubles are left out).
\<close>

datatype number = Num rat | PosInf | NegInf | NaN

text \<open>\<open>a - b\<close> on numbers.\<close>

fun number_minus :: "number \<Rightarrow> number \<Rightarrow> number" where
  "number_minus (Num a) (Num b) = Num (a - b)"
| "number_minus NaN _ = NaN"
| "number_minus _ NaN = NaN"
| "number_minus PosInf PosInf = NaN"
| "number_minus NegInf NegInf = NaN"
| "number_minus PosInf _ = PosInf"
| "number_minus NegInf _ = NegInf"
| "number_minus (Num a) PosInf = NegInf"
| "number_minus (Num a) NegInf = PosInf"

text \<open>\<open>a * b\<close> on numbers: an infinity times zero is \<open>NaN\<close>.\<close>

definition inf_times :: "bool \<Rightarrow> rat \<Rightarrow> number" where
  "inf_times positive b =
     (if b = 0 then NaN else if (0 < b) = positive then PosInf else NegInf)"

fun number_times :: "number \<Rightarrow> number \<Rightarrow> number" where
  "number_times (Num a) (Num b) = Num (a * b)"
| "number_times NaN _ = NaN"
| "number_times _ NaN = NaN"
| "number_times PosInf (Num b) = inf_times True b"
| "number_times NegInf (Num b) = inf_times False b"
| "number_times (Num a) PosInf = inf_times True a"
| "number_times (Num a) NegInf = inf_times False a"
| "number_times PosInf PosInf = PosInf"
| "number_times NegInf NegInf = PosInf"
| "number_times PosInf NegInf = NegInf"
| "number_times NegInf PosInf = NegInf"

text \<open>\<open>a <= b\<close> and \<open>a < b\<close> on numbers: false as soon as one side is \<open>NaN\<close>.\<close>

fun number_le :: "number \<Rightarrow> number \<Rightarrow> bool" where
  "number_le (Num a) (Num b) = (a \<le> b)"
| "number_le NaN _ = False"
| "number_le _ NaN = False"
| "number_le NegInf _ = True"
| "number_le _ PosInf = True"
| "number_le PosInf _ = False"
| "number_le _ NegInf = False"

fun number_less :: "number \<Rightarrow> number \<Rightarrow> bool" where
  "number_less (Num a) (Num b) = (a < b)"
| "number_less NaN _ = False"
| "number_less _ NaN = False"
| "number_less PosInf _ = False"
| "number_less _ NegInf = False"
| "number_less NegInf _ = True"
| "number_less _ PosInf = True"

text \<open>\<open>Number.MAX_VALUE\<close>, the largest finite double.\<close>

definition Number_MAX_VALUE :: number where
  "Number_MAX_VALUE = Num ((2 ^ 53 - 1) * 2 ^ 971)"

text \<open>
  A JavaScript \<open>Date\<close>: its time value in milliseconds since the epoch, \<open>None\<close> for the
  Invalid Date.
\<close>

type_synonym date = "int option"

text \<open>
  The built-ins the handlers call, and the regular-expression engine of the database.
  \<open>RegExp pattern options\<close> is \<open>None\<close> for a pattern the engine refuses, else the test
  of a string against the pattern.
\<close>

record platform =
  new_Date :: "string \<Rightarrow> date"
  ToNumber :: "string \<Rightarrow> number"
  parseInt :: "string \<Rightarrow> number"
  RegExp :: "string \<Rightarrow> string \<Rightarrow> (string \<Rightarrow> bool) option"

subsection \<open>Documents, filters and pipelines\<close>

text \<open>
  A stored transaction, with the fields the seed handler gives it (\<open>app.js\<close> lines 24-31).
  The \<open>_id\<close> the database adds is left out: no handler reads it.
\<close>

record transaction =
  title :: string
  description :: string
  price :: rat
  dateOfSale :: date
  category :: string
  sold :: bool

datatype path = Title | Description | Price | DateOfSale | Category | Sold

datatype bson = BString string | BNumber number | BDate date | BBool bool

fun field_value :: "path \<Rightarrow> transaction \<Rightarrow> bson" where
  "field_value Title t = BString (title t)"
| "field_value Description t = BString (description t)"
| "field_value Price t = BNumber (Num (price t))"
| "field_value DateOfSale t = BDate (dateOfSale t)"
| "field_value Category t = BString (category t)"
| "field_value Sold t = BBool (sold t)"

text \<open>
  The filter documents the handlers build. \<open>{dateOfSale: {$gte: a, $lt: b}}\<close> is
  \<open>Key DateOfSale [Gte a, Lt b]\<close>, \<open>{sold: true}\<close> is \<open>Key Sold [Eq (BBool True)]\<close>,
  \<open>{$regex: s, $options: 'i'}\<close> is \<open>Regex s ''i''\<close>, and each alternative of an \<open>$or\<close> is
  a document of one field, as in the source. A filter is the list of its keys.
\<close>

datatype cond = Gte bson | Lt bson | Eq bson | Regex string string

datatype clause = Key path "cond list" | Or "(path \<times> cond list) list"

type_synonym query = "clause list"

text \<open>
  Comparison operators compare values of one type only; a bound that is the Invalid Date
  compares with nothing. \<open>$regex\<close> tests strings: a value that is not a string does not
  match.
\<close>

fun bson_le :: "bson \<Rightarrow> bson \<Rightarrow> bool" where
  "bson_le (BNumber a) (BNumber b) = number_le a b"
| "bson_le (BDate (Some a)) (BDate (Some b)) = (a \<le> b)"
| "bson_le _ _ = False"

fun bson_less :: "bson \<Rightarrow> bson \<Rightarrow> bool" where
  "bson_less (BNumber a) (BNumber b) = number_less a b"
| "bson_less (BDate (Some a)) (BDate (Some b)) = (a < b)"
| "bson_less _ _ = False"

fun cond_matches :: "platform \<Rightarrow> cond \<Rightarrow> bson \<Rightarrow> bool" where
  "cond_matches rt (Gte b) v = bson_le b v"
| "cond_matches rt (Lt b) v = bson_less v b"
| "cond_matches rt (Eq b) v = (v = b)"
| "cond_matches rt (Regex pattern options) v =
     (case v of
        BString s \<Rightarrow> (case RegExp rt pattern options of None \<Rightarrow> False | Some test \<Rightarrow> test s)
      | _ \<Rightarrow> False)"

definition conds_match :: "platform \<Rightarrow> path \<times> cond list \<Rightarrow> transaction \<Rightarrow> bool" where
  "conds_match rt pc t = list_all (\<lambda>c. cond_matches rt c (field_value (fst pc) t)) (snd pc)"

fun clause_matches :: "platform \<Rightarrow> clause \<Rightarrow> transaction \<Rightarrow> bool" where
  "clause_matches rt (Key p cs) t = conds_match rt (p, cs) t"
| "clause_matches rt (Or alternatives) t = list_ex (\<lambda>pc. conds_match rt pc t) alternatives"

definition matches :: "platform \<Rightarrow> query \<Rightarrow> transaction \<Rightarrow> bool" where
  "matches rt q t = list_all (\<lambda>c. clause_matches rt c t) q"

text \<open>
  The \<open>$group\<close> stage of the two pipelines in the source: \<open>_id\<close> is \<open>null\<close> or a field,
  and the one accumulator is \<open>{$sum: '$price'}\<close> or \<open>{$sum: 1}\<close>. A row of the result
  holds the \<open>_id\<close> of its group (\<open>None\<close> for \<open>null\<close>), the name of the accumulator's key
  and its value.
\<close>

datatype group_key = Null | FieldRef path

datatype accumulator = SumField path | SumConst rat

record agg_row =
  row_id :: "bson option"
  row_key :: string
  row_value :: rat

fun key_of :: "group_key \<Rightarrow> transaction \<Rightarrow> bson option" where
  "key_of Null t = None"
| "key_of (FieldRef p) t = Some (field_value p t)"

text \<open>\<open>$sum\<close> adds the numeric values and passes over any other.\<close>

fun summand :: "accumulator \<Rightarrow> transaction \<Rightarrow> rat" where
  "summand (SumConst c) t = c"
| "summand (SumField p) t = (case field_value p t of BNumber (Num x) \<Rightarrow> x | _ \<Rightarrow> 0)"

fun add_to_group :: "bson option \<Rightarrow> rat \<Rightarrow> (bson option \<times> rat) list \<Rightarrow> (bson option \<times> rat) list" where
  "add_to_group k x [] = [(k, x)]"
| "add_to_group k x ((k', s) # groups) =
     (if k = k' then (k', s + x) # groups else (k', s) # add_to_group k x groups)"

text \<open>
  The groups in the order in which their first document is met (the database promises no
  order).
\<close>

definition group_rows :: "group_key \<Rightarrow> string \<Rightarrow> accumulator \<Rightarrow> transaction list \<Rightarrow> agg_row list" where
  "group_rows key name acc ts =
     map (\<lambda>(k, s). \<lparr>row_id = k, row_key = name, row_value = s\<rparr>)
       (foldl (\<lambda>groups t. add_to_group (key_of key t) (summand acc t) groups) [] ts)"

subsection \<open>The collection\<close>

text \<open>
  The model \<open>Transaction\<close> of \<open>models/Transaction.js\<close> and the database behind it are not
  among the sources; the operations the handlers call on the model are given here, from
  the spec and from what the database documents for them. The database is the list of
  stored documents, in the order of their insertion, and the list of the calls made on the
  model so far. Failures of the connection are not modelled: an operation fails for its
  arguments only.
\<close>

datatype error =
  AxiosError string | CastError string | ValidationError string | MongoServerError string

fun message :: "error \<Rightarrow> string" where
  "message (AxiosError m) = m"
| "message (CastError m) = m"
| "message (ValidationError m) = m"
| "message (MongoServerError m) = m"

datatype db_call =
  Find query "number option" "number option"
| CountDocuments query
| Aggregate query group_key string accumulator
| DeleteMany query
| Save transaction

record database =
  docs :: "transaction list"
  calls :: "db_call list"

type_synonym 'a db_action = "database \<Rightarrow> (error + 'a) \<times> database"

fun clause_conds :: "clause \<Rightarrow> (path \<times> cond) list" where
  "clause_conds (Key p cs) = map (Pair p) cs"
| "clause_conds (Or alternatives) = concat (map (\<lambda>(p, cs). map (Pair p) cs) alternatives)"

text \<open>The paths the schema declares as text.\<close>

fun string_path :: "path \<Rightarrow> bool" where
  "string_path Title = True"
| "string_path Description = True"
| "string_path Category = True"
| "string_path _ = False"

fun cast_failed :: "path \<Rightarrow> error" where
  "cast_failed Price = CastError ''Cast to number failed''"
| "cast_failed DateOfSale = CastError ''Cast to date failed''"
| "cast_failed Sold = CastError ''Cast to boolean failed''"
| "cast_failed _ = CastError ''Cast to string failed''"

text \<open>
  Modelled from the spec: the cast of a filter against the schema of
  \<open>models/Transaction.js\<close>, which is not among the sources. The spec's data model makes
  dateOfSale a timestamp and price numeric, and its section on error handling says that a
  month that is no date makes the request fail: a bound that is the Invalid Date is
  refused, and so is a \<open>{$regex, $options}\<close> on a path that is not text, as the price is.
  The keys of the filter are cast in their order, and the first refusal is the error of
  the operation, raised before anything is sent to the database.
\<close>

fun cast_cond :: "path \<times> cond \<Rightarrow> error option" where
  "cast_cond (p, Gte b) = (if b = BDate None then Some (CastError ''Cast to date failed'') else None)"
| "cast_cond (p, Lt b) = (if b = BDate None then Some (CastError ''Cast to date failed'') else None)"
| "cast_cond (p, Eq b) = (if b = BDate None then Some (CastError ''Cast to date failed'') else None)"
| "cast_cond (p, Regex pattern options) = (if string_path p then None else Some (cast_failed p))"

fun first_error :: "('a \<Rightarrow> error option) \<Rightarrow> 'a list \<Rightarrow> error option" where
  "first_error f [] = None"
| "first_error f (x # xs) = (case f x of Some e \<Rightarrow> Some e | None \<Rightarrow> first_error f xs)"

definition cast_error :: "query \<Rightarrow> error option" where
  "cast_error q = first_error cast_cond (concat (map clause_conds q))"

text \<open>
  The database refuses a filter with a pattern its regular-expression engine does not
  take.
\<close>

fun refused_regex :: "platform \<Rightarrow> path \<times> cond \<Rightarrow> bool" where
  "refused_regex rt (p, Regex pattern options) = (RegExp rt pattern options = None)"
| "refused_regex rt _ = False"

definition server_error :: "platform \<Rightarrow> query \<Rightarrow> error option" where
  "server_error rt q =
     (if list_ex (refused_regex rt) (concat (map clause_conds q))
      then Some (MongoServerError ''Regular expression is invalid'')
      else None)"

text \<open>
  The error of an operation that takes a filter (\<open>find\<close>, \<open>countDocuments\<close>,
  \<open>deleteMany\<close>): the refusal of the cast, or else of the database.
\<close>

definition query_error :: "platform \<Rightarrow> query \<Rightarrow> error option" where
  "query_error rt q = (case cast_error q of Some e \<Rightarrow> Some e | None \<Rightarrow> server_error rt q)"

definition logged :: "db_call \<Rightarrow> database \<Rightarrow> database" where
  "logged c db = db\<lparr>calls := calls db @ [c]\<rparr>"

text \<open>
  \<open>skip\<close> and \<open>limit\<close> of a cursor: a skip is a non-negative integer, a limit an integer;
  limit 0 is no limit and a negative limit is its absolute value. Any other number is
  refused.
\<close>

definition is_integer :: "rat \<Rightarrow> bool" where
  "is_integer r = (r = of_int \<lfloor>r\<rfloor>)"

fun cursor_skip :: "number option \<Rightarrow> error + nat" where
  "cursor_skip None = Inr 0"
| "cursor_skip (Some (Num r)) =
     (if 0 \<le> r \<and> is_integer r then Inr (nat \<lfloor>r\<rfloor>)
      else Inl (MongoServerError ''skip must be a non-negative integer''))"
| "cursor_skip (Some _) = Inl (MongoServerError ''skip must be a non-negative integer'')"

fun cursor_limit :: "number option \<Rightarrow> error + nat option" where
  "cursor_limit None = Inr None"
| "cursor_limit (Some (Num r)) =
     (if is_integer r then Inr (if r = 0 then None else Some (nat \<bar>\<lfloor>r\<rfloor>\<bar>))
      else Inl (MongoServerError ''limit must be an integer''))"
| "cursor_limit (Some _) = Inl (MongoServerError ''limit must be an integer'')"

fun limited :: "nat option \<Rightarrow> 'a list \<Rightarrow> 'a list" where
  "limited None xs = xs"
| "limited (Some n) xs = take n xs"

text \<open>
  Modelled from the spec: \<open>Transaction.find(q).skip(s).limit(l)\<close> of the model that is not
  among the sources, \<open>None\<close> standing for a \<open>skip\<close> or \<open>limit\<close> that is not called. It
  answers with the documents that match the filter, in the order of their insertion.
\<close>

definition Transaction_find ::
  "platform \<Rightarrow> query \<Rightarrow> number option \<Rightarrow> number option \<Rightarrow> transaction list db_action" where
  "Transaction_find rt q s l db =
     (let db' = logged (Find q s l) db in
      case query_error rt q of
        Some e \<Rightarrow> (Inl e, db')
      | None \<Rightarrow>
          (case cursor_skip s of
             Inl e \<Rightarrow> (Inl e, db')
           | Inr n \<Rightarrow>
               (case cursor_limit l of
                  Inl e \<Rightarrow> (Inl e, db')
                | Inr m \<Rightarrow> (Inr (limited m (drop n (filter (matches rt q) (docs db)))), db'))))"

text \<open>
  Modelled from the spec: \<open>Transaction.countDocuments(q)\<close> of the model that is not among
  the sources, the number of documents that match the filter.
\<close>

definition Transaction_countDocuments :: "platform \<Rightarrow> query \<Rightarrow> nat db_action" where
  "Transaction_countDocuments rt q db =
     (let db' = logged (CountDocuments q) db in
      case query_error rt q of
        Some e \<Rightarrow> (Inl e, db')
      | None \<Rightarrow> (Inr (length (filter (matches rt q) (docs db))), db'))"

text \<open>
  Modelled from the spec:
  \<open>Transaction.aggregate([{$match: q}, {$group: {_id: key, name: acc}}])\<close> of the model
  that is not among the sources, the groups of the documents that match the filter. A
  pipeline is sent to the database as it is: its \<open>$match\<close> is not cast against the schema,
  so a bound that is the Invalid Date raises nothing here. Such a bound compares with no
  stored date; in the pipelines of the source both bounds are the same date, and no
  document lies between them whatever the database reads the bound as.
\<close>

definition Transaction_aggregate ::
  "platform \<Rightarrow> query \<Rightarrow> group_key \<Rightarrow> string \<Rightarrow> accumulator \<Rightarrow> agg_row list db_action" where
  "Transaction_aggregate rt q key name acc db =
     (let db' = logged (Aggregate q key name acc) db in
      case server_error rt q of
        Some e \<Rightarrow> (Inl e, db')
      | None \<Rightarrow> (Inr (group_rows key name acc (filter (matches rt q) (docs db))), db'))"

text \<open>
  Modelled from the spec: \<open>Transaction.deleteMany(q)\<close> of the model that is not among the
  sources. It removes the documents that match the filter; the empty filter matches every
  document.
\<close>

definition Transaction_deleteMany :: "platform \<Rightarrow> query \<Rightarrow> unit db_action" where
  "Transaction_deleteMany rt q db =
     (let db' = logged (DeleteMany q) db in
      case query_error rt q of
        Some e \<Rightarrow> (Inl e, db')
      | None \<Rightarrow> (Inr (), db'\<lparr>docs := filter (\<lambda>t. \<not> matches rt q t) (docs db)\<rparr>))"

text \<open>
  Modelled from the spec: \<open>t.save()\<close> of a new document \<open>t\<close> of the model that is not
  among the sources. The document is stored after the others; one whose dateOfSale, a
  timestamp in the spec's data model, is the Invalid Date is refused.
\<close>

definition Transaction_save :: "transaction \<Rightarrow> unit db_action" where
  "Transaction_save t db =
     (let db' = logged (Save t) db in
      if dateOfSale t = None
      then (Inl (ValidationError ''Transaction validation failed: dateOfSale''), db')
      else (Inr (), db'\<lparr>docs := docs db @ [t]\<rparr>))"

subsection \<open>Promises and responses\<close>

text \<open>
  \<open>await m\<close> followed by the rest of an async function: a rejection of \<open>m\<close> ends the
  function with that rejection. \<open>try_catch\<close> is \<open>try { m } catch (error) { h }\<close>.
\<close>

definition resolve :: "'a \<Rightarrow> 'a db_action" where
  "resolve x db = (Inr x, db)"

definition await :: "'a db_action \<Rightarrow> ('a \<Rightarrow> 'b db_action) \<Rightarrow> 'b db_action" where
  "await m f db = (case m db of (Inl e, db') \<Rightarrow> (Inl e, db') | (Inr x, db') \<Rightarrow> f x db')"

definition try_catch :: "'a db_action \<Rightarrow> (error \<Rightarrow> 'a db_action) \<Rightarrow> 'a db_action" where
  "try_catch m h db = (case m db of (Inl e, db') \<Rightarrow> h e db' | (Inr x, db') \<Rightarrow> (Inr x, db'))"

record statistics =
  totalSaleAmount :: rat
  totalSoldItems :: nat
  totalNotSoldItems :: nat

text \<open>An entry \<open>{range, count}\<close> of the bar chart.\<close>

record chart_entry =
  entry_range :: string
  entry_count :: nat

record all_data =
  transactions :: "transaction list"
  statistics :: statistics
  barChart :: "chart_entry list"
  pieChart :: "agg_row list"

datatype body =
  Message string
| ErrorBody string
| Transactions "transaction list"
| Statistics statistics
| BarChart "chart_entry list"
| PieChart "agg_row list"
| AllData all_data

text \<open>
  What a request ends with: a response with its status and body (\<open>res.json\<close> answers with
  status 200 unless \<open>res.status\<close> was called), or the rejection of the handler's promise,
  which nothing handles.
\<close>

datatype outcome = Response nat body | Unhandled error

definition res_json :: "body \<Rightarrow> (nat \<times> body) db_action" where
  "res_json b = resolve (200, b)"

definition res_status_json :: "nat \<Rightarrow> body \<Rightarrow> (nat \<times> body) db_action" where
  "res_status_json status b = resolve (status, b)"

definition run :: "(nat \<times> body) db_action \<Rightarrow> database \<Rightarrow> outcome \<times> database" where
  "run m db =
     (case m db of
        (Inl e, db') \<Rightarrow> (Unhandled e, db')
      | (Inr (status, b), db') \<Rightarrow> (Response status b, db'))"

subsection \<open>GET /seed (lines 14-39)\<close>

text \<open>
  An item of the remote JSON array, with the fields the handler reads. \<open>axios.get(apiUrl)\<close>
  is given by its result \<open>fetched\<close>: the array in \<open>response.data\<close>, or the error it rejects
  with.
\<close>

record item =
  item_title :: string
  item_description :: string
  item_price :: rat
  item_dateOfSale :: string
  item_category :: string
  item_sold :: bool

definition axios_get :: "error + 'a \<Rightarrow> 'a db_action" where
  "axios_get fetched db = (fetched, db)"

definition new_Transaction :: "platform \<Rightarrow> item \<Rightarrow> transaction" where
  "new_Transaction rt i =
     \<lparr>title = item_title i,
      description = item_description i,
      price = item_price i,
      dateOfSale = new_Date rt (item_dateOfSale i),
      category = item_category i,
      sold = item_sold i\<rparr>"

text \<open>The loop of lines 23-33.\<close>

fun save_items :: "platform \<Rightarrow> item list \<Rightarrow> unit db_action" where
  "save_items rt [] = resolve ()"
| "save_items rt (i # data) =
     await (Transaction_save (new_Transaction rt i)) (\<lambda>_. save_items rt data)"

definition seed_handler :: "platform \<Rightarrow> error + item list \<Rightarrow> database \<Rightarrow> outcome \<times> database" where
  "seed_handler rt fetched =
     run (try_catch
       (await (axios_get fetched) (\<lambda>data.
        await (Transaction_deleteMany rt []) (\<lambda>_.
        await (save_items rt data) (\<lambda>_.
        res_json (Message ''Database seeded successfully!'')))))
       (\<lambda>error. res_status_json 500 (ErrorBody (message error))))"

subsection \<open>The month filter\<close>

text \<open>
  \<open>req.query\<close>: the query parameters the handlers read, \<open>None\<close> for one that is absent.
\<close>

record req_query =
  page :: "string option"
  perPage :: "string option"
  search :: "string option"
  month :: "string option"

text \<open>
  The template literal \<open>`${month}`\<close>: a parameter that is absent is \<open>undefined\<close> and prints
  as such.
\<close>

fun template :: "string option \<Rightarrow> string" where
  "template None = ''undefined''"
| "template (Some s) = s"

text \<open>
  The object literal
  \<open>{dateOfSale: {$gte: new Date(`${month}`), $lt: new Date(`${month}`)}}\<close> of lines 46-48,
  70-72, 94-96 and 129-131, written out again at lines 147, 151, 174 and 181.
\<close>

definition month_query :: "platform \<Rightarrow> string option \<Rightarrow> query" where
  "month_query rt m =
     [Key DateOfSale
        [Gte (BDate (new_Date rt (template m))), Lt (BDate (new_Date rt (template m)))]]"

subsection \<open>GET /transactions (lines 43-63)\<close>

text \<open>The alternatives of \<open>query.$or\<close> (lines 51-55).\<close>

definition search_or :: "string \<Rightarrow> (path \<times> cond list) list" where
  "search_or s =
     [(Title, [Regex s ''i'']), (Description, [Regex s ''i'']), (Price, [Regex s ''i''])]"

text \<open>
  The destructuring of line 44 gives \<open>page\<close> and \<open>perPage\<close> the numbers 1 and 10 when they
  are absent and their strings otherwise. \<open>page - 1\<close> and \<open>* perPage\<close> coerce a string to a
  number; \<open>parseInt(perPage)\<close> reads the string, and is 10 for the number 10.
\<close>

definition transactions_handler :: "platform \<Rightarrow> req_query \<Rightarrow> database \<Rightarrow> outcome \<times> database" where
  "transactions_handler rt params =
     (let page_number = (case page params of None \<Rightarrow> Num 1 | Some s \<Rightarrow> ToNumber rt s);
          perPage_number = (case perPage params of None \<Rightarrow> Num 10 | Some s \<Rightarrow> ToNumber rt s);
          perPage_int = (case perPage params of None \<Rightarrow> Num 10 | Some s \<Rightarrow> parseInt rt s);
          search_string = (case search params of None \<Rightarrow> '''' | Some s \<Rightarrow> s);
          query = month_query rt (month params);
          query = (if search_string \<noteq> '''' then query @ [Or (search_or search_string)] else query)
      in run
        (await (Transaction_find rt query
                  (Some (number_times (number_minus page_number (Num 1)) perPage_number))
                  (Some perPage_int)) (\<lambda>transactions.
         res_json (Transactions transactions))))"

subsection \<open>GET /statistics (lines 67-87)\<close>

text \<open>\<open>totalSaleAmount[0]?.total || 0\<close>.\<close>

definition first_total :: "agg_row list \<Rightarrow> rat" where
  "first_total rows =
     (case rows of
        [] \<Rightarrow> 0
      | r # _ \<Rightarrow> if row_key r = ''total'' \<and> row_value r \<noteq> 0 then row_value r else 0)"

definition statistics_handler :: "platform \<Rightarrow> req_query \<Rightarrow> database \<Rightarrow> outcome \<times> database" where
  "statistics_handler rt params =
     (let query = month_query rt (month params)
      in run
        (await (Transaction_aggregate rt query Null ''total'' (SumField Price)) (\<lambda>totalSaleAmount.
         await (Transaction_countDocuments rt (query @ [Key Sold [Eq (BBool True)]])) (\<lambda>totalSoldItems.
         await (Transaction_countDocuments rt (query @ [Key Sold [Eq (BBool False)]])) (\<lambda>totalNotSoldItems.
         res_json (Statistics
           \<lparr>totalSaleAmount = first_total totalSaleAmount,
            totalSoldItems = totalSoldItems,
            totalNotSoldItems = totalNotSoldItems\<rparr>))))))"

subsection \<open>GET /barchart (lines 91-122)\<close>

record price_range =
  range_name :: string
  range_min :: number
  range_max :: number

definition priceRanges :: "price_range list" where
  "priceRanges =
     [\<lparr>range_name = ''0-100'', range_min = Num 0, range_max = Num 100\<rparr>,
      \<lparr>range_name = ''101-200'', range_min = Num 101, range_max = Num 200\<rparr>,
      \<lparr>range_name = ''201-300'', range_min = Num 201, range_max = Num 300\<rparr>,
      \<lparr>range_name = ''301-400'', range_min = Num 301, range_max = Num 400\<rparr>,
      \<lparr>range_name = ''401-500'', range_min = Num 401, range_max = Num 500\<rparr>,
      \<lparr>range_name = ''501-600'', range_min = Num 501, range_max = Num 600\<rparr>,
      \<lparr>range_name = ''601-700'', range_min = Num 601, range_max = Num 700\<rparr>,
      \<lparr>range_name = ''701-800'', range_min = Num 701, range_max = Num 800\<rparr>,
      \<lparr>range_name = ''801-900'', range_min = Num 801, range_max = Num 900\<rparr>,
      \<lparr>range_name = ''901-above'', range_min = Num 901, range_max = PosInf\<rparr>]"

text \<open>
  The filter of one count: the filter \<open>query\<close> with the key
  \<open>price: {$gte: range.min, $lt: range.max === Infinity ? Number.MAX_VALUE : range.max}\<close>.
\<close>

definition range_query :: "query \<Rightarrow> price_range \<Rightarrow> query" where
  "range_query query r =
     query @
     [Key Price
        [Gte (BNumber (range_min r)),
         Lt (BNumber (if range_max r = PosInf then Number_MAX_VALUE else range_max r))]]"

text \<open>
  The loop of lines 113-119, and of lines 172-178: one count for each range, pushed on
  \<open>result\<close>.
\<close>

fun count_ranges ::
  "platform \<Rightarrow> query \<Rightarrow> price_range list \<Rightarrow> chart_entry list \<Rightarrow> chart_entry list db_action" where
  "count_ranges rt query [] result = resolve result"
| "count_ranges rt query (r # ranges) result =
     await (Transaction_countDocuments rt (range_query query r)) (\<lambda>count.
     count_ranges rt query ranges (result @ [\<lparr>entry_range = range_name r, entry_count = count\<rparr>]))"

definition barchart_handler :: "platform \<Rightarrow> req_query \<Rightarrow> database \<Rightarrow> outcome \<times> database" where
  "barchart_handler rt params =
     (let query = month_query rt (month params)
      in run
        (await (count_ranges rt query priceRanges []) (\<lambda>result.
         res_json (BarChart result))))"

subsection \<open>GET /piechart (lines 126-139)\<close>

definition piechart_handler :: "platform \<Rightarrow> req_query \<Rightarrow> database \<Rightarrow> outcome \<times> database" where
  "piechart_handler rt params =
     (let query = month_query rt (month params)
      in run
        (await (Transaction_aggregate rt query (FieldRef Category) ''count'' (SumConst 1)) (\<lambda>categories.
         res_json (PieChart categories))))"

subsection \<open>GET /alldata (lines 143-195)\<close>

text \<open>
  The filter of the two counts of lines 155 and 156: its upper bound is
  \<open>new Date(`${month}-31T23:59:59.999Z`)\<close>.
\<close>

definition month_end_query :: "platform \<Rightarrow> string option \<Rightarrow> bool \<Rightarrow> query" where
  "month_end_query rt m s =
     [Key DateOfSale
        [Gte (BDate (new_Date rt (template m))),
         Lt (BDate (new_Date rt (template m @ ''-31T23:59:59.999Z'')))],
      Key Sold [Eq (BBool s)]]"

definition alldata_handler :: "platform \<Rightarrow> req_query \<Rightarrow> database \<Rightarrow> outcome \<times> database" where
  "alldata_handler rt params =
     run
       (await (Transaction_find rt (month_query rt (month params)) None None) (\<lambda>transactions.
        await (Transaction_aggregate rt (month_query rt (month params)) Null ''total'' (SumField Price)) (\<lambda>totalSaleAmount.
        await (Transaction_countDocuments rt (month_end_query rt (month params) True)) (\<lambda>totalSoldItems.
        await (Transaction_countDocuments rt (month_end_query rt (month params) False)) (\<lambda>totalNotSoldItems.
        await (count_ranges rt (month_query rt (month params)) priceRanges []) (\<lambda>barChartResult.
        await (Transaction_aggregate rt (month_query rt (month params)) (FieldRef Category) ''count'' (SumConst 1)) (\<lambda>categories.
        res_json (AllData
          \<lparr>transactions = transactions,
           statistics =
             \<lparr>totalSaleAmount = first_total totalSaleAmount,
              totalSoldItems = totalSoldItems,
              totalNotSoldItems = totalNotSoldItems\<rparr>,
           barChart = barChartResult,
           pieChart = categories\<rparr>))))))))"

subsection \<open>A platform for concrete requests\<close>

text \<open>
  An instance of \<open>platform\<close> on which the handlers can be evaluated. It agrees with
  Node.js and the database on the arguments named here, and is kept small elsewhere:
  \<^item> \<open>new Date\<close> knows three strings, with their time values in milliseconds
    (\<open>2022-01\<close> is 2022-01-01T00:00:00Z), and gives the Invalid Date for any other, as
    Node.js does for \<open>undefined\<close> and \<open>garbage\<close>;
  \<^item> the coercion to a number and \<open>parseInt\<close> read a non-empty string of decimal digits,
    and give \<open>NaN\<close> for any other string;
  \<^item> a pattern of letters and digits with the option \<open>i\<close> tests whether the pattern
    occurs in the string, letter case ignored; any other pattern is refused.
\<close>

definition sample_Date :: "string \<Rightarrow> date" where
  "sample_Date s =
     (if s = ''2022-01'' then Some 1640995200000
      else if s = ''2022-01-15T00:00:00Z'' then Some 1642204800000
      else if s = ''2022-01-31T23:59:59.999Z'' then Some 1643673599999
      else None)"

definition is_digit :: "char \<Rightarrow> bool" where
  "is_digit c = (48 \<le> (of_char c :: nat) \<and> (of_char c :: nat) \<le> 57)"

definition is_letter :: "char \<Rightarrow> bool" where
  "is_letter c =
     (65 \<le> (of_char c :: nat) \<and> (of_char c :: nat) \<le> 90 \<or>
      97 \<le> (of_char c :: nat) \<and> (of_char c :: nat) \<le> 122)"

definition sample_number :: "string \<Rightarrow> number" where
  "sample_number s =
     (if s \<noteq> [] \<and> list_all is_digit s
      then Num (of_nat (foldl (\<lambda>n c. 10 * n + (of_char c - 48)) 0 s))
      else NaN)"

definition lower :: "char \<Rightarrow> char" where
  "lower c =
     (if 65 \<le> (of_char c :: nat) \<and> (of_char c :: nat) \<le> 90
      then char_of ((of_char c :: nat) + 32) else c)"

fun starts_with :: "string \<Rightarrow> string \<Rightarrow> bool" where
  "starts_with [] s = True"
| "starts_with (p # ps) [] = False"
| "starts_with (p # ps) (c # cs) = (p = c \<and> starts_with ps cs)"

fun occurs_in :: "string \<Rightarrow> string \<Rightarrow> bool" where
  "occurs_in p [] = (p = [])"
| "occurs_in p (c # cs) = (starts_with p (c # cs) \<or> occurs_in p cs)"

definition sample_RegExp :: "string \<Rightarrow> string \<Rightarrow> (string \<Rightarrow> bool) option" where
  "sample_RegExp pattern options =
     (if list_all (\<lambda>c. is_digit c \<or> is_letter c) pattern \<and> options = ''i''
      then Some (\<lambda>s. occurs_in (map lower pattern) (map lower s))
      else None)"

definition sample_platform :: platform where
  "sample_platform =
     \<lparr>new_Date = sample_Date, ToNumber = sample_number, parseInt = sample_number,
      RegExp = sample_RegExp\<rparr>"

text \<open>
  Four requests (January 2022 with no other parameter; the second page of five for a
  search, and without a search; no parameter at all), a database of one sale of 15
  January 2022, and an item of the remote array.
\<close>

definition january :: req_query where
  "january = \<lparr>page = None, perPage = None, search = None, month = Some ''2022-01''\<rparr>"

definition page_two :: req_query where
  "page_two =
     \<lparr>page = Some ''2'', perPage = Some ''5'', search = Some ''bag'', month = Some ''2022-01''\<rparr>"



definition sample_sale :: transaction where
  "sample_sale =
     \<lparr>title = ''Bag'', description = ''A leather bag'', price = 201 / 2,
      dateOfSale = Some 1642204800000, category = ''men'', sold = True\<rparr>"

definition sample_db :: database where
  "sample_db = \<lparr>docs = [sample_sale], calls = []\<rparr>"

definition sample_item :: item where
  "sample_item =
     \<lparr>item_title = ''Wallet'', item_description = ''A wallet'', item_price = 25,
      item_dateOfSale = ''2022-01-15T00:00:00Z'', item_category = ''men'', item_sold = False\<rparr>"

section \<open>Filters\<close>

text \<open>
  The month filter asks for a date that is at least and less than one and the same
  bound, so no document matches it, nor any filter that extends it.
\<close>

lemma month_query_never: "\<not> matches rt (month_query rt m @ q) t"
  by (cases "new_Date rt (template m)"; cases "dateOfSale t")
    (simp_all add: matches_def month_query_def conds_match_def)

lemma month_query_never0: "\<not> matches rt (month_query rt m) t"
  using month_query_never [of rt m "[]" t] by simp

lemma matches_append: "matches rt (q @ q') t = (matches rt q t \<and> matches rt q' t)"
  by (simp add: matches_def)

lemma matches_price_range:
  "matches rt [Key Price [Gte (BNumber (Num lo)), Lt (BNumber (Num hi))]] t =
     (lo \<le> price t \<and> price t < hi)"
  by (simp add: matches_def conds_match_def)


lemma range_query_matches:
  "matches rt (q @ [Key Price [Gte (BNumber (Num lo)), Lt (BNumber (Num hi))]]) =
     (\<lambda>t. matches rt q t \<and> lo \<le> price t \<and> price t < hi)"
  by (rule ext) (simp add: matches_append matches_price_range)


text \<open>Which filters of the handlers are rejected.\<close>

lemma query_error_month:
  "query_error rt (month_query rt m) =
     (if new_Date rt (template m) = None then Some (CastError ''Cast to date failed'') else None)"
  by (simp add: query_error_def cast_error_def server_error_def month_query_def)

lemma server_error_month: "server_error rt (month_query rt m) = None"
  by (simp add: server_error_def month_query_def)

lemma query_error_month_sold:
  "query_error rt (month_query rt m @ [Key Sold [Eq (BBool b)]]) =
     (if new_Date rt (template m) = None then Some (CastError ''Cast to date failed'') else None)"
  by (simp add: query_error_def cast_error_def server_error_def month_query_def)

lemma query_error_range:
  "r \<in> set priceRanges \<Longrightarrow> query_error rt (range_query (month_query rt m) r) =
     (if new_Date rt (template m) = None then Some (CastError ''Cast to date failed'') else None)"
  by (auto simp add: query_error_def cast_error_def server_error_def month_query_def
      range_query_def Number_MAX_VALUE_def)

lemma query_error_search:
  "query_error rt (month_query rt m @ [Or (search_or s)]) =
     (if new_Date rt (template m) = None then Some (CastError ''Cast to date failed'')
      else Some (CastError ''Cast to number failed''))"
  by (simp add: query_error_def cast_error_def month_query_def search_or_def)

section \<open>The operations of the collection\<close>

lemma docs_logged: "docs (logged c db) = docs db"
  by (simp add: logged_def)

lemma limited_Nil: "limited m [] = []"
  by (cases m) simp_all

lemma find_ok:
  "query_error rt q = None \<Longrightarrow> cursor_skip s = Inr n \<Longrightarrow> cursor_limit l = Inr m \<Longrightarrow>
   Transaction_find rt q s l db =
     (Inr (limited m (drop n (filter (matches rt q) (docs db)))), logged (Find q s l) db)"
  by (simp add: Transaction_find_def)

lemma find_error:
  "query_error rt q = Some e \<Longrightarrow> Transaction_find rt q s l db = (Inl e, logged (Find q s l) db)"
  by (simp add: Transaction_find_def)



lemma countDocuments_ok:
  "query_error rt q = None \<Longrightarrow>
   Transaction_countDocuments rt q db =
     (Inr (length (filter (matches rt q) (docs db))), logged (CountDocuments q) db)"
  by (simp add: Transaction_countDocuments_def)

lemma countDocuments_error:
  "query_error rt q = Some e \<Longrightarrow>
   Transaction_countDocuments rt q db = (Inl e, logged (CountDocuments q) db)"
  by (simp add: Transaction_countDocuments_def)

lemma aggregate_ok:
  "server_error rt q = None \<Longrightarrow>
   Transaction_aggregate rt q k n a db =
     (Inr (group_rows k n a (filter (matches rt q) (docs db))), logged (Aggregate q k n a) db)"
  by (simp add: Transaction_aggregate_def)

lemma deleteMany_all:
  "Transaction_deleteMany rt [] db =
     (Inr (), db\<lparr>docs := [], calls := calls db @ [DeleteMany []]\<rparr>)"
  by (simp add: Transaction_deleteMany_def query_error_def cast_error_def server_error_def
      matches_def logged_def)

lemma save_ok:
  "dateOfSale t \<noteq> None \<Longrightarrow>
   Transaction_save t db = (Inr (), db\<lparr>docs := docs db @ [t], calls := calls db @ [Save t]\<rparr>)"
  by (auto simp add: Transaction_save_def logged_def Let_def)

lemma save_error:
  "dateOfSale t = None \<Longrightarrow>
   Transaction_save t db =
     (Inl (ValidationError ''Transaction validation failed: dateOfSale''), logged (Save t) db)"
  by (simp add: Transaction_save_def)

text \<open>The reading operations leave the documents as they are, whatever they answer.\<close>

lemma find_docs: "docs (snd (Transaction_find rt q s l db)) = docs db"
  by (simp add: Transaction_find_def Let_def docs_logged split: option.split sum.split)

lemma countDocuments_docs: "docs (snd (Transaction_countDocuments rt q db)) = docs db"
  by (simp add: Transaction_countDocuments_def Let_def docs_logged split: option.split)

lemma aggregate_docs: "docs (snd (Transaction_aggregate rt q k n a db)) = docs db"
  by (simp add: Transaction_aggregate_def Let_def docs_logged split: option.split)

lemma docs_resolve: "docs (snd (resolve x db)) = docs db"
  by (simp add: resolve_def)

lemma docs_await:
  assumes "\<And>db. docs (snd (m db)) = docs db" and "\<And>x db. docs (snd (f x db)) = docs db"
  shows "docs (snd (await m f db)) = docs db"
proof (cases "m db")
  case (Pair r db')
  with assms(1) [of db] have "docs db' = docs db" by simp
  with Pair assms(2) show ?thesis by (cases r) (simp_all add: await_def)
qed

lemma docs_run:
  assumes "\<And>db. docs (snd (m db)) = docs db"
  shows "docs (snd (run m db)) = docs db"
  using assms [of db] by (cases "m db") (auto simp add: run_def split: sum.split)




text \<open>The sum of the prices is the total of the one group of \<open>_id: null\<close>.\<close>

lemma foldl_null_group:
  "foldl (\<lambda>groups t. add_to_group None (price t) groups) [(None, s)] ts =
     [(None, s + sum_list (map price ts))]"
  by (induction ts arbitrary: s) (simp_all add: add.assoc)

lemma first_total_group_rows:
  "first_total (group_rows Null ''total'' (SumField Price) ts) = sum_list (map price ts)"
proof (cases ts)
  case Nil
  then show ?thesis by (simp add: group_rows_def first_total_def)
next
  case (Cons t ts')
  then show ?thesis
    by (simp add: group_rows_def first_total_def foldl_null_group)
qed

lemma group_rows_Nil: "group_rows k n a [] = []"
  by (simp add: group_rows_def)

lemma first_total_Nil: "first_total [] = 0"
  by (simp add: first_total_def)

section \<open>The query endpoints\<close>

subsection \<open>The loop over the price ranges\<close>

lemma count_ranges_docs: "docs (snd (count_ranges rt q ranges result db)) = docs db"
proof (induction ranges arbitrary: result db)
  case Nil
  show ?case by (simp add: docs_resolve)
next
  case (Cons r ranges)
  show ?case by (simp add: docs_await countDocuments_docs Cons.IH)
qed

lemma count_ranges_ok:
  "\<forall>r\<in>set ranges. query_error rt (range_query q r) = None \<Longrightarrow>
   count_ranges rt q ranges result db =
     (Inr (result @ map (\<lambda>r. \<lparr>entry_range = range_name r,
               entry_count = length (filter (matches rt (range_query q r)) (docs db))\<rparr>) ranges),
      db\<lparr>calls := calls db @ map (\<lambda>r. CountDocuments (range_query q r)) ranges\<rparr>)"
proof (induction ranges arbitrary: result db)
  case Nil
  show ?case by (simp add: resolve_def)
next
  case (Cons r ranges)
  then show ?case
    by (simp add: await_def countDocuments_ok logged_def)
qed

subsection \<open>The stored documents\<close>

lemma transactions_docs: "docs (snd (transactions_handler rt params db)) = docs db"
  by (simp add: transactions_handler_def Let_def docs_run docs_await find_docs res_json_def
      docs_resolve)

lemma statistics_docs: "docs (snd (statistics_handler rt params db)) = docs db"
  by (simp add: statistics_handler_def Let_def docs_run docs_await aggregate_docs
      countDocuments_docs res_json_def docs_resolve)

lemma barchart_docs: "docs (snd (barchart_handler rt params db)) = docs db"
  by (simp add: barchart_handler_def Let_def docs_run docs_await count_ranges_docs res_json_def
      docs_resolve)

lemma piechart_docs: "docs (snd (piechart_handler rt params db)) = docs db"
  by (simp add: piechart_handler_def Let_def docs_run docs_await aggregate_docs res_json_def
      docs_resolve)

lemma alldata_docs: "docs (snd (alldata_handler rt params db)) = docs db"
  by (simp add: alldata_handler_def Let_def docs_run docs_await aggregate_docs countDocuments_docs
      find_docs count_ranges_docs res_json_def docs_resolve)

text \<open>
  C8. Every endpoint except GET /seed leaves the stored transactions unchanged: for every
  database and every request to /transactions, /statistics, /barchart, /piechart or
  /alldata, the documents stored after the request are the documents stored before it,
  whether the request is answered or its promise rejected.
\<close>

theorem query_endpoints_keep_documents:
  "docs (snd (transactions_handler rt params db)) = docs db \<and>
   docs (snd (statistics_handler rt params db)) = docs db \<and>
   docs (snd (barchart_handler rt params db)) = docs db \<and>
   docs (snd (piechart_handler rt params db)) = docs db \<and>
   docs (snd (alldata_handler rt params db)) = docs db"
  by (simp add: transactions_docs statistics_docs barchart_docs piechart_docs alldata_docs)

theorem query_endpoints_keep_documents_witness:
  "docs (snd (transactions_handler sample_platform page_two sample_db)) = [sample_sale] \<and>
   docs (snd (statistics_handler sample_platform page_two sample_db)) = [sample_sale] \<and>
   docs (snd (barchart_handler sample_platform page_two sample_db)) = [sample_sale] \<and>
   docs (snd (piechart_handler sample_platform page_two sample_db)) = [sample_sale] \<and>
   docs (snd (alldata_handler sample_platform page_two sample_db)) = [sample_sale]"
  using query_endpoints_keep_documents [of sample_platform page_two sample_db]
  by (simp add: sample_db_def)

subsection \<open>What the endpoints answer\<close>

lemma january_date: "new_Date sample_platform (template (month january)) = Some 1640995200000"
  by (simp add: sample_platform_def january_def sample_Date_def)



text \<open>
  A month that is no date: the filter of a \<open>find\<close> or a \<open>countDocuments\<close> is refused
  by the cast, while the pipeline of an \<open>aggregate\<close> is sent and matches nothing. GET
  /statistics gets to its first count, GET /piechart to its answer.
\<close>

lemma invalid_month:
  assumes "new_Date rt (template (month params)) = None"
  shows "fst (transactions_handler rt params db) = Unhandled (CastError ''Cast to date failed'')"
    and "fst (statistics_handler rt params db) = Unhandled (CastError ''Cast to date failed'')"
    and "fst (barchart_handler rt params db) = Unhandled (CastError ''Cast to date failed'')"
    and "fst (alldata_handler rt params db) = Unhandled (CastError ''Cast to date failed'')"
proof -
  let ?e = "CastError ''Cast to date failed''"
  let ?mq = "month_query rt (month params)"
  have e: "query_error rt ?mq = Some ?e" "\<And>s. query_error rt (?mq @ [Or (search_or s)]) = Some ?e"
    "\<And>b. query_error rt (?mq @ [Key Sold [Eq (BBool b)]]) = Some ?e"
    using assms by (simp_all add: query_error_month query_error_search query_error_month_sold)
  show "fst (transactions_handler rt params db) = Unhandled ?e"
    by (simp add: transactions_handler_def Let_def run_def await_def find_error e)
  show "fst (statistics_handler rt params db) = Unhandled ?e"
    by (simp add: statistics_handler_def Let_def run_def await_def aggregate_ok
        server_error_month countDocuments_error e)
  have "query_error rt (range_query ?mq (hd priceRanges)) = Some ?e"
    using assms by (simp add: query_error_range priceRanges_def)
  then show "fst (barchart_handler rt params db) = Unhandled ?e"
    by (simp add: barchart_handler_def Let_def run_def await_def priceRanges_def
        countDocuments_error)
  show "fst (alldata_handler rt params db) = Unhandled ?e"
    by (simp add: alldata_handler_def Let_def run_def await_def find_error e)
qed


lemma statistics_valid:
  assumes "new_Date rt (template (month params)) = Some d"
  shows "statistics_handler rt params db =
     (Response 200 (Statistics
        \<lparr>totalSaleAmount =
           sum_list (map price (filter (matches rt (month_query rt (month params))) (docs db))),
         totalSoldItems =
           length (filter (matches rt (month_query rt (month params) @ [Key Sold [Eq (BBool True)]]))
             (docs db)),
         totalNotSoldItems =
           length (filter (matches rt (month_query rt (month params) @ [Key Sold [Eq (BBool False)]]))
             (docs db))\<rparr>),
      db\<lparr>calls := calls db @
         [Aggregate (month_query rt (month params)) Null ''total'' (SumField Price),
          CountDocuments (month_query rt (month params) @ [Key Sold [Eq (BBool True)]]),
          CountDocuments (month_query rt (month params) @ [Key Sold [Eq (BBool False)]])]\<rparr>)"
proof -
  let ?q = "month_query rt (month params)"
  have e: "query_error rt ?q = None" "\<And>b. query_error rt (?q @ [Key Sold [Eq (BBool b)]]) = None"
    using assms by (simp_all add: query_error_month query_error_month_sold)
  show ?thesis
    by (simp add: statistics_handler_def Let_def run_def await_def aggregate_ok
        server_error_month countDocuments_ok e
        res_json_def resolve_def first_total_group_rows logged_def docs_logged)
qed

lemma barchart_valid:
  assumes "new_Date rt (template (month params)) = Some d"
  shows "barchart_handler rt params db =
     (Response 200 (BarChart (map (\<lambda>r. \<lparr>entry_range = range_name r,
          entry_count =
            length (filter (matches rt (range_query (month_query rt (month params)) r)) (docs db))\<rparr>)
        priceRanges)),
      db\<lparr>calls := calls db @
         map (\<lambda>r. CountDocuments (range_query (month_query rt (month params)) r)) priceRanges\<rparr>)"
proof -
  have "\<forall>r\<in>set priceRanges. query_error rt (range_query (month_query rt (month params)) r) = None"
    using assms by (simp add: query_error_range)
  from count_ranges_ok [OF this, of "[]" db] show ?thesis
    by (simp add: barchart_handler_def Let_def run_def await_def res_json_def resolve_def)
qed

lemma transactions_empty:
  "fst (transactions_handler rt params db) = Response s b \<Longrightarrow> b = Transactions []"
  by (auto simp add: transactions_handler_def run_def await_def Transaction_find_def Let_def
      res_json_def resolve_def month_query_never month_query_never0 limited_Nil
      split: option.splits sum.splits if_splits prod.splits)

lemma statistics_empty:
  "fst (statistics_handler rt params db) = Response s b \<Longrightarrow>
   b = Statistics \<lparr>totalSaleAmount = 0, totalSoldItems = 0, totalNotSoldItems = 0\<rparr>"
  by (auto simp add: statistics_handler_def run_def await_def Transaction_aggregate_def
      Transaction_countDocuments_def Let_def
      res_json_def resolve_def month_query_never month_query_never0 group_rows_Nil first_total_Nil
      split: option.splits sum.splits if_splits prod.splits)

lemma piechart_empty:
  "fst (piechart_handler rt params db) = Response s b \<Longrightarrow> b = PieChart []"
  by (auto simp add: piechart_handler_def run_def await_def Transaction_aggregate_def Let_def
      res_json_def resolve_def month_query_never month_query_never0 group_rows_Nil
      split: option.splits sum.splits if_splits prod.splits)

lemma barchart_empty:
  assumes "fst (barchart_handler rt params db) = Response s b"
  shows "b = BarChart (map (\<lambda>r. \<lparr>entry_range = range_name r, entry_count = 0\<rparr>) priceRanges)"
proof (cases "new_Date rt (template (month params))")
  case None
  with assms show ?thesis by (simp add: invalid_month)
next
  case (Some d)
  from assms show ?thesis
    unfolding barchart_valid [OF Some]
    by (simp add: range_query_def month_query_never)
qed

text \<open>
  C2. The month filter of GET /transactions, GET /statistics, GET /barchart and GET
  /piechart compares the date of sale with one and the same date: for every value of the
  month parameter, the lower bound (\<open>$gte\<close>) and the upper bound (\<open>$lt\<close>) are both
  \<open>new Date(month)\<close>, so the filter matches no transaction at all. Whatever the database
  holds, the listing an answer carries is empty, its statistics are zero, every count of
  its bar chart is zero and its pie chart has no category.
\<close>

theorem month_filter_matches_nothing:
  "month_query rt (month params) =
     [Key DateOfSale
        [Gte (BDate (new_Date rt (template (month params)))),
         Lt (BDate (new_Date rt (template (month params))))]] \<and>
   (\<forall>t. \<not> matches rt (month_query rt (month params)) t) \<and>
   (\<forall>s b. fst (transactions_handler rt params db) = Response s b \<longrightarrow> b = Transactions []) \<and>
   (\<forall>s b. fst (statistics_handler rt params db) = Response s b \<longrightarrow>
      b = Statistics \<lparr>totalSaleAmount = 0, totalSoldItems = 0, totalNotSoldItems = 0\<rparr>) \<and>
   (\<forall>s b. fst (barchart_handler rt params db) = Response s b \<longrightarrow>
      (\<exists>entries. b = BarChart entries \<and> list_all (\<lambda>e. entry_count e = 0) entries)) \<and>
   (\<forall>s b. fst (piechart_handler rt params db) = Response s b \<longrightarrow> b = PieChart [])"
proof (intro conjI allI impI)
  show "month_query rt (month params) =
     [Key DateOfSale
        [Gte (BDate (new_Date rt (template (month params)))),
         Lt (BDate (new_Date rt (template (month params))))]]"
    by (simp add: month_query_def)
next
  fix t show "\<not> matches rt (month_query rt (month params)) t"
    by (rule month_query_never0)
next
  fix s b assume "fst (transactions_handler rt params db) = Response s b"
  then show "b = Transactions []" by (rule transactions_empty)
next
  fix s b assume "fst (statistics_handler rt params db) = Response s b"
  then show "b = Statistics \<lparr>totalSaleAmount = 0, totalSoldItems = 0, totalNotSoldItems = 0\<rparr>"
    by (rule statistics_empty)
next
  fix s b assume "fst (barchart_handler rt params db) = Response s b"
  from barchart_empty [OF this]
  show "\<exists>entries. b = BarChart entries \<and> list_all (\<lambda>e. entry_count e = 0) entries"
    by (simp add: list_all_iff)
next
  fix s b assume "fst (piechart_handler rt params db) = Response s b"
  then show "b = PieChart []" by (rule piechart_empty)
qed

text \<open>
  The sale of 15 January 2022 is stored and January 2022 is asked for: the sale does not
  match the filter, and the four answers are empty.
\<close>

theorem month_filter_matches_nothing_witness:
  "\<not> matches sample_platform (month_query sample_platform (Some ''2022-01'')) sample_sale \<and>
   fst (transactions_handler sample_platform january sample_db) = Response 200 (Transactions []) \<and>
   fst (statistics_handler sample_platform january sample_db) =
     Response 200 (Statistics \<lparr>totalSaleAmount = 0, totalSoldItems = 0, totalNotSoldItems = 0\<rparr>) \<and>
   fst (piechart_handler sample_platform january sample_db) = Response 200 (PieChart [])"
proof -
  have m: "month january = Some ''2022-01''"
    by (simp add: january_def)
  have "fst (transactions_handler sample_platform january sample_db) = Response 200 (Transactions [])"
    by code_simp
  then have t: "\<exists>b. fst (transactions_handler sample_platform january sample_db) = Response 200 b"
    by simp
  have s: "\<exists>b. fst (statistics_handler sample_platform january sample_db) = Response 200 b"
    using statistics_valid [OF january_date] by simp
  have "fst (piechart_handler sample_platform january sample_db) = Response 200 (PieChart [])"
    by code_simp
  then have p: "\<exists>b. fst (piechart_handler sample_platform january sample_db) = Response 200 b"
    by simp
  from month_filter_matches_nothing [of sample_platform january sample_db] m t s p
  show ?thesis by auto
qed











subsection \<open>The status of an answer\<close>






section \<open>The seed endpoint\<close>

lemma save_items_resolved:
  "save_items rt data db = (Inr u, db') \<Longrightarrow>
   docs db' = docs db @ map (new_Transaction rt) data \<and>
   list_all (\<lambda>i. new_Date rt (item_dateOfSale i) \<noteq> None) data"
proof (induction data arbitrary: db)
  case Nil
  then show ?case by (simp add: resolve_def)
next
  case (Cons i data)
  show ?case
  proof (cases "dateOfSale (new_Transaction rt i)")
    case None
    with Cons.prems show ?thesis by (simp add: await_def save_error)
  next
    case (Some d)
    then have valid: "dateOfSale (new_Transaction rt i) \<noteq> None" by simp
    from Cons.prems have
      "save_items rt data (db\<lparr>docs := docs db @ [new_Transaction rt i],
         calls := calls db @ [Save (new_Transaction rt i)]\<rparr>) = (Inr u, db')"
      by (simp add: await_def save_ok [OF valid])
    from Cons.IH [OF this] valid show ?thesis
      by (simp add: new_Transaction_def)
  qed
qed

lemma save_items_valid:
  "list_all (\<lambda>i. new_Date rt (item_dateOfSale i) \<noteq> None) data \<Longrightarrow>
   save_items rt data db =
     (Inr (), db\<lparr>docs := docs db @ map (new_Transaction rt) data,
                 calls := calls db @ map (\<lambda>i. Save (new_Transaction rt i)) data\<rparr>)"
proof (induction data arbitrary: db)
  case Nil
  show ?case by (simp add: resolve_def)
next
  case (Cons i data)
  then have valid: "dateOfSale (new_Transaction rt i) \<noteq> None"
    by (simp add: new_Transaction_def)
  from Cons show ?case
    by (simp add: await_def save_ok [OF valid])
qed


lemma seed_fetched:
  "seed_handler rt (Inr data) db =
     (case save_items rt data (db\<lparr>docs := [], calls := calls db @ [DeleteMany []]\<rparr>) of
        (Inl e, db') \<Rightarrow> (Response 500 (ErrorBody (message e)), db')
      | (Inr u, db') \<Rightarrow> (Response 200 (Message ''Database seeded successfully!''), db'))"
  by (simp add: seed_handler_def run_def try_catch_def await_def axios_get_def deleteMany_all
      res_json_def res_status_json_def resolve_def split: prod.split sum.split)

lemma seed_rejected:
  "seed_handler rt (Inl e) db = (Response 500 (ErrorBody (message e)), db)"
  by (simp add: seed_handler_def run_def try_catch_def await_def axios_get_def
      res_status_json_def resolve_def)

lemma seed_valid:
  "list_all (\<lambda>i. new_Date rt (item_dateOfSale i) \<noteq> None) data \<Longrightarrow>
   seed_handler rt (Inr data) db =
     (Response 200 (Message ''Database seeded successfully!''),
      db\<lparr>docs := map (new_Transaction rt) data,
         calls := calls db @ DeleteMany [] # map (\<lambda>i. Save (new_Transaction rt i)) data\<rparr>)"
  by (simp add: seed_fetched save_items_valid)


text \<open>
  C3. After a successful GET /seed (an answer with status 200), the stored transactions
  are exactly one record for each item of the fetched remote array, in its order, each
  with the title, description, price, category and sold of its item and with the item's
  dateOfSale parsed as a date, and every record stored before the seed is gone.
\<close>

theorem seed_replaces_documents:
  assumes "seed_handler rt fetched db = (Response 200 b, db')"
  shows "\<exists>data. fetched = Inr data \<and>
     docs db' =
       map (\<lambda>i. \<lparr>title = item_title i, description = item_description i, price = item_price i,
                  dateOfSale = new_Date rt (item_dateOfSale i), category = item_category i,
                  sold = item_sold i\<rparr>) data \<and>
     list_all (\<lambda>t. dateOfSale t \<noteq> None) (docs db')"
proof (cases fetched)
  case (Inl e)
  with assms show ?thesis by (simp add: seed_rejected)
next
  case (Inr data)
  let ?db = "db\<lparr>docs := [], calls := calls db @ [DeleteMany []]\<rparr>"
  obtain r db1 where saved: "save_items rt data ?db = (r, db1)"
    by (cases "save_items rt data ?db")
  with assms Inr obtain u where r: "r = Inr u" and db': "db' = db1"
    by (cases r) (simp_all add: seed_fetched)
  from save_items_resolved [OF saved [unfolded r]] db' Inr show ?thesis
    by (simp add: new_Transaction_def [abs_def] list_all_iff)
qed

text \<open>
  A database that holds the sale of a bag is seeded with an array of one wallet: the
  answer has status 200, and the wallet is the one record stored.
\<close>

theorem seed_replaces_documents_witness:
  "seed_handler sample_platform (Inr [sample_item]) sample_db =
     (Response 200 (Message ''Database seeded successfully!''),
      \<lparr>docs = [new_Transaction sample_platform sample_item],
       calls = [DeleteMany [], Save (new_Transaction sample_platform sample_item)]\<rparr>) \<and>
   docs \<lparr>docs = [new_Transaction sample_platform sample_item],
         calls = [DeleteMany [], Save (new_Transaction sample_platform sample_item)]\<rparr> =
     [\<lparr>title = ''Wallet'', description = ''A wallet'', price = 25,
       dateOfSale = Some 1642204800000, category = ''men'', sold = False\<rparr>]"
proof -
  have valid: "list_all (\<lambda>i. new_Date sample_platform (item_dateOfSale i) \<noteq> None) [sample_item]"
    by (simp add: sample_platform_def sample_item_def sample_Date_def)
  have seeded: "seed_handler sample_platform (Inr [sample_item]) sample_db =
     (Response 200 (Message ''Database seeded successfully!''),
      \<lparr>docs = [new_Transaction sample_platform sample_item],
       calls = [DeleteMany [], Save (new_Transaction sample_platform sample_item)]\<rparr>)"
    by (simp add: seed_valid [OF valid] sample_db_def)
  from seed_replaces_documents [OF seeded] seeded show ?thesis
    by (auto simp add: sample_item_def sample_platform_def sample_Date_def)
qed



section \<open>The search filter\<close>




section \<open>The price buckets\<close>

text \<open>
  C9, as the code has it. The ten price buckets of GET /barchart, and of the bar chart of
  GET /alldata, are not exhaustive: a price \<open>p\<close> with \<open>100 \<le> p < 101\<close>, \<open>200 \<le> p < 201\<close>,
  and so on up to \<open>900 \<le> p < 901\<close>, and a negative price, lie in none of the ten
  buckets, so a record with such a price is counted by none of the ten count queries,
  whatever the rest of their filter.
\<close>

theorem buckets_not_exhaustive:
  assumes "100 \<le> price t \<and> price t < 101 \<or> 200 \<le> price t \<and> price t < 201 \<or>
     300 \<le> price t \<and> price t < 301 \<or> 400 \<le> price t \<and> price t < 401 \<or>
     500 \<le> price t \<and> price t < 501 \<or> 600 \<le> price t \<and> price t < 601 \<or>
     700 \<le> price t \<and> price t < 701 \<or> 800 \<le> price t \<and> price t < 801 \<or>
     900 \<le> price t \<and> price t < 901 \<or> price t < 0"
  shows "length priceRanges = 10 \<and> list_all (\<lambda>r. \<not> matches rt (range_query q r) t) priceRanges"
  using assms
  by (auto simp add: priceRanges_def range_query_def Number_MAX_VALUE_def range_query_matches)

text \<open>
  The bag costs 100.50: it matches the empty filter and the range query of no bucket
  over it, and the loop over the empty filter counts it in no bucket.
\<close>

theorem buckets_not_exhaustive_witness:
  "100 \<le> price sample_sale \<and> price sample_sale < 101 \<and>
   matches sample_platform [] sample_sale \<and>
   list_all (\<lambda>r. \<not> matches sample_platform (range_query [] r) sample_sale) priceRanges \<and>
   fst (count_ranges sample_platform [] priceRanges [] sample_db) =
     Inr (map (\<lambda>r. \<lparr>entry_range = range_name r, entry_count = 0\<rparr>) priceRanges)"
proof -
  have counted: "fst (count_ranges sample_platform [] priceRanges [] sample_db) =
     Inr (map (\<lambda>r. \<lparr>entry_range = range_name r, entry_count = 0\<rparr>) priceRanges)"
    by code_simp
  have p: "100 \<le> price sample_sale \<and> price sample_sale < 101"
    by (simp add: sample_sale_def)
  then have "100 \<le> price sample_sale \<and> price sample_sale < 101 \<or>
     200 \<le> price sample_sale \<and> price sample_sale < 201 \<or>
     300 \<le> price sample_sale \<and> price sample_sale < 301 \<or>
     400 \<le> price sample_sale \<and> price sample_sale < 401 \<or>
     500 \<le> price sample_sale \<and> price sample_sale < 501 \<or>
     600 \<le> price sample_sale \<and> price sample_sale < 601 \<or>
     700 \<le> price sample_sale \<and> price sample_sale < 701 \<or>
     800 \<le> price sample_sale \<and> price sample_sale < 801 \<or>
     900 \<le> price sample_sale \<and> price sample_sale < 901 \<or> price sample_sale < 0"
    by simp
  from buckets_not_exhaustive [OF this, of sample_platform "[]"] p counted show ?thesis
    by (simp add: matches_def)
qed

text \<open>
  C9, as it is stated, ends: so the sum of the ten counts can be less than the number of
  records that match the month filter. No record matches the month filter, so no answer
  of GET /barchart, and no bar chart of GET /alldata, has counts that sum to less than
  the number of such records.
\<close>

theorem sum_of_counts_never_less:
  "\<not> (\<exists>rt params db entries.
        (fst (barchart_handler rt params db) = Response 200 (BarChart entries) \<or>
         (\<exists>a. fst (alldata_handler rt params db) = Response 200 (AllData a) \<and>
              entries = barChart a)) \<and>
        sum_list (map entry_count entries)
          < length (filter (matches rt (month_query rt (month params))) (docs db)))"
  by (simp add: month_query_never0)

section \<open>The combined endpoint\<close>

text \<open>
  When the month and the month followed by \<open>-31T23:59:59.999Z\<close> are both dates \<open>d\<close> and
  \<open>d'\<close>, the two counts of GET /alldata are over the records sold from \<open>d\<close> and before
  \<open>d'\<close>; every other part of the answer is empty or zero, as for the four endpoints.
\<close>

lemma query_error_month_end:
  "query_error rt (month_end_query rt m s) =
     (if new_Date rt (template m) = None \<or> new_Date rt (template m @ ''-31T23:59:59.999Z'') = None
      then Some (CastError ''Cast to date failed'') else None)"
  by (simp add: query_error_def cast_error_def server_error_def month_end_query_def)

lemma matches_month_end:
  assumes "new_Date rt (template m) = Some d"
    and "new_Date rt (template m @ ''-31T23:59:59.999Z'') = Some d'"
  shows "matches rt (month_end_query rt m s) =
     (\<lambda>t. (\<exists>x. dateOfSale t = Some x \<and> d \<le> x \<and> x < d') \<and> sold t = s)"
proof (rule ext)
  fix t
  show "matches rt (month_end_query rt m s) t =
     ((\<exists>x. dateOfSale t = Some x \<and> d \<le> x \<and> x < d') \<and> sold t = s)"
    using assms
    by (cases "dateOfSale t") (auto simp add: matches_def month_end_query_def conds_match_def)
qed

lemma alldata_valid:
  assumes d: "new_Date rt (template (month params)) = Some d"
    and d': "new_Date rt (template (month params) @ ''-31T23:59:59.999Z'') = Some d'"
  shows "fst (alldata_handler rt params db) =
     Response 200 (AllData
       \<lparr>transactions = [],
        statistics =
          \<lparr>totalSaleAmount = 0,
           totalSoldItems =
             length (filter (\<lambda>t. (\<exists>x. dateOfSale t = Some x \<and> d \<le> x \<and> x < d') \<and> sold t = True)
               (docs db)),
           totalNotSoldItems =
             length (filter (\<lambda>t. (\<exists>x. dateOfSale t = Some x \<and> d \<le> x \<and> x < d') \<and> sold t = False)
               (docs db))\<rparr>,
        barChart = map (\<lambda>r. \<lparr>entry_range = range_name r, entry_count = 0\<rparr>) priceRanges,
        pieChart = []\<rparr>)"
proof -
  let ?mq = "month_query rt (month params)"
  have e: "query_error rt ?mq = None"
    "\<And>s. query_error rt (month_end_query rt (month params) s) = None"
    using d d' by (simp_all add: query_error_month query_error_month_end)
  have r: "\<forall>r\<in>set priceRanges. query_error rt (range_query ?mq r) = None"
    using d by (simp add: query_error_range)
  have none: "filter (matches rt ?mq) (docs db) = []"
    by (simp add: month_query_never0)
  have found: "\<And>db. Transaction_find rt ?mq None None db = (Inr [], logged (Find ?mq None None) db)"
    using find_ok [OF e(1), of None 0 None None] by (simp add: month_query_never0)
  show ?thesis
    by (simp add: alldata_handler_def run_def await_def found aggregate_ok server_error_month
        countDocuments_ok e
        count_ranges_ok [OF r] res_json_def resolve_def docs_logged none group_rows_Nil
        first_total_Nil matches_month_end [OF d d'] range_query_def month_query_never logged_def)
qed

text \<open>
  C1 says that the answer of GET /alldata is the composite of the answers of the four
  endpoints for the same month. The two counts of sold and unsold items of GET /alldata
  (lines 155 and 156) have another upper bound than every other filter, the one GET
  /statistics uses included, so the two endpoints disagree: with the sale of 15 January
  2022 stored and the month \<open>2022-01\<close>, GET /statistics counts no sold item and GET
  /alldata counts one.
\<close>

theorem alldata_statistics_differ:
  "fst (statistics_handler sample_platform january sample_db) =
     Response 200 (Statistics \<lparr>totalSaleAmount = 0, totalSoldItems = 0, totalNotSoldItems = 0\<rparr>) \<and>
   fst (alldata_handler sample_platform january sample_db) =
     Response 200 (AllData
       \<lparr>transactions = [],
        statistics = \<lparr>totalSaleAmount = 0, totalSoldItems = 1, totalNotSoldItems = 0\<rparr>,
        barChart =
          [\<lparr>entry_range = ''0-100'', entry_count = 0\<rparr>, \<lparr>entry_range = ''101-200'', entry_count = 0\<rparr>,
           \<lparr>entry_range = ''201-300'', entry_count = 0\<rparr>, \<lparr>entry_range = ''301-400'', entry_count = 0\<rparr>,
           \<lparr>entry_range = ''401-500'', entry_count = 0\<rparr>, \<lparr>entry_range = ''501-600'', entry_count = 0\<rparr>,
           \<lparr>entry_range = ''601-700'', entry_count = 0\<rparr>, \<lparr>entry_range = ''701-800'', entry_count = 0\<rparr>,
           \<lparr>entry_range = ''801-900'', entry_count = 0\<rparr>, \<lparr>entry_range = ''901-above'', entry_count = 0\<rparr>],
        pieChart = []\<rparr>)"
  by code_simp

end
